theory Spec2Isabelle
  imports Main
begin

section \<open>Python values, strings and exceptions\<close>

text \<open>
  The gateway moves JSON-like Python values around: the payload of the legacy endpoint is a
  \<^verbatim>\<open>Dict[str, Any]\<close>, a raw search record is a dict built by the video-search leaf.
  Floats are left out; a dict is an association list read with \<^const>\<open>map_of\<close>.
  A Python \<^verbatim>\<open>str\<close> is modelled as a list of characters with code points below 256.
\<close>

datatype pyval =
    PNone
  | PBool bool
  | PInt int
  | PStr string
  | PList "pyval list"
  | PDict "(string \<times> pyval) list"

text \<open>Truth value of an object, as \<^verbatim>\<open>if x\<close> and \<^verbatim>\<open>x and y\<close> test it.\<close>

fun truthy :: "pyval \<Rightarrow> bool" where
  "truthy PNone = False"
| "truthy (PBool b) = b"
| "truthy (PInt i) = (i \<noteq> 0)"
| "truthy (PStr s) = (s \<noteq> [])"
| "truthy (PList xs) = (xs \<noteq> [])"
| "truthy (PDict kvs) = (kvs \<noteq> [])"

text \<open>\<^verbatim>\<open>s.startswith(p)\<close> and \<^verbatim>\<open>s.startswith((p1, p2))\<close>.\<close>

definition startswith :: "string \<Rightarrow> string \<Rightarrow> bool" where
  "startswith s p = (take (length p) s = p)"

definition startswith_any :: "string \<Rightarrow> string list \<Rightarrow> bool" where
  "startswith_any s ps = list_ex (startswith s) ps"

text \<open>\<^verbatim>\<open>keyword in s\<close> for two strings: substring test.\<close>

fun contains :: "string \<Rightarrow> string \<Rightarrow> bool" where
  "contains [] keyword = (keyword = [])"
| "contains (c # cs) keyword = (startswith (c # cs) keyword \<or> contains cs keyword)"

text \<open>
  \<^verbatim>\<open>str.isspace\<close> on the code points below 256: TAB, LF, VT, FF, CR, the separators
  0x1C to 0x1F, SPACE, NEL (0x85) and NBSP (0xA0).
\<close>

definition isspace :: "char \<Rightarrow> bool" where
  "isspace c = (of_char c \<in> {9, 10, 11, 12, 13, 28, 29, 30, 31, 32, 133, 160 :: nat})"

definition strip :: "string \<Rightarrow> string" where
  "strip s = rev (dropWhile isspace (rev (dropWhile isspace s)))"

text \<open>
  \<^verbatim>\<open>str.lower\<close> on the code points below 256: A to Z, and the Latin-1 capitals 0xC0 to
  0xDE without the multiplication sign 0xD7, move up by 32.
\<close>

definition lower_char :: "char \<Rightarrow> char" where
  "lower_char c =
     (let n = (of_char c :: nat)
      in if (65 \<le> n \<and> n \<le> 90) \<or> (192 \<le> n \<and> n \<le> 222 \<and> n \<noteq> 215)
         then char_of (n + 32) else c)"

definition lower :: "string \<Rightarrow> string" where
  "lower s = map lower_char s"

text \<open>
  Exceptions. \<open>ValueError\<close> carries its message. \<open>ValidationError\<close> is the error of the
  model classes' constructors (pydantic), with the names of the rejected fields; it is a
  subclass of \<^verbatim>\<open>ValueError\<close>. \<open>KeyError\<close> carries the missing key, \<open>TypeError\<close> the
  object that was subscripted, \<open>AttributeError\<close> the object and the attribute,
  \<open>HTTPException\<close> status code and detail. \<open>OtherException\<close> is any other exception a
  leaf client may raise, of a class outside \<^verbatim>\<open>ValueError\<close> and \<^verbatim>\<open>KeyError\<close>.
\<close>

datatype exn =
    ValueError string
  | ValidationError "string list"
  | KeyError string
  | TypeError pyval
  | AttributeError pyval string
  | HTTPException nat string
  | OtherException string

text \<open>\<^verbatim>\<open>except ValueError\<close> and \<^verbatim>\<open>except KeyError\<close> match these.\<close>

fun is_ValueError :: "exn \<Rightarrow> bool" where
  "is_ValueError (ValueError m) = True"
| "is_ValueError (ValidationError fs) = True"
| "is_ValueError e = False"

fun is_KeyError :: "exn \<Rightarrow> bool" where
  "is_KeyError (KeyError k) = True"
| "is_KeyError e = False"

section \<open>mcp/models.py\<close>

record WebsiteAnalysisRequest =
  url :: string
  prompt :: string

record WebsiteAnalysisResponse =
  task :: string
  source_url :: string
  user_prompt :: string
  analysis_result :: string

record MusicSearchRequest =
  query :: string

record MusicVideo =
  title :: string
  video_url :: string
  embed_url :: string
  thumbnail :: string
  channel :: string
  description :: string

record MusicSearchResponse =
  task :: string
  query :: string
  results :: "MusicVideo list"
  error :: "string option"

record ImageGenerationRequest =
  prompt :: string

record ImageGenerationResponse =
  task :: string
  prompt :: string
  image_url :: string
  error :: "string option"

text \<open>
  The constructors as the code calls them, with the defaults of the class declarations:
  \<^verbatim>\<open>task: str = "website_analysis"\<close>, \<^verbatim>\<open>task: str = "music_search"\<close>,
  \<^verbatim>\<open>task: str = "image_generation"\<close>, \<^verbatim>\<open>error: Optional[str] = None\<close>.
\<close>

definition new_WebsiteAnalysisResponse ::
  "string \<Rightarrow> string \<Rightarrow> string \<Rightarrow> WebsiteAnalysisResponse" where
  "new_WebsiteAnalysisResponse src p a =
     \<lparr>WebsiteAnalysisResponse.task = ''website_analysis'', source_url = src,
      user_prompt = p, analysis_result = a\<rparr>"

definition new_MusicSearchResponse :: "string \<Rightarrow> MusicVideo list \<Rightarrow> MusicSearchResponse" where
  "new_MusicSearchResponse q rs =
     \<lparr>MusicSearchResponse.task = ''music_search'', MusicSearchResponse.query = q,
      results = rs, MusicSearchResponse.error = None\<rparr>"

definition new_ImageGenerationResponse :: "string \<Rightarrow> string \<Rightarrow> ImageGenerationResponse" where
  "new_ImageGenerationResponse p u =
     \<lparr>ImageGenerationResponse.task = ''image_generation'', ImageGenerationResponse.prompt = p,
      image_url = u, ImageGenerationResponse.error = None\<rparr>"

text \<open>
  Validation of a field declared \<^verbatim>\<open>str\<close>: a string is taken as it is, \<^verbatim>\<open>None\<close>, lists
  and dicts are rejected. Numbers and booleans are rejected as well (strict string fields).
\<close>

fun validate_str :: "pyval \<Rightarrow> string option" where
  "validate_str (PStr s) = Some s"
| "validate_str v = None"

text \<open>
  \<^verbatim>\<open>MusicVideo(title=.., video_url=.., embed_url=.., thumbnail=.., channel=..,
  description=..)\<close>: all six fields are validated, the rejected ones are reported together.
\<close>

definition rejected :: "(string \<times> pyval) list \<Rightarrow> string list" where
  "rejected kvs = map fst (filter (\<lambda>(k, v). validate_str v = None) kvs)"

definition new_MusicVideo ::
  "pyval \<Rightarrow> pyval \<Rightarrow> pyval \<Rightarrow> pyval \<Rightarrow> pyval \<Rightarrow> pyval \<Rightarrow> exn + MusicVideo" where
  "new_MusicVideo t v e th c d =
     (case (validate_str t, validate_str v, validate_str e,
            validate_str th, validate_str c, validate_str d) of
        (Some t', Some v', Some e', Some th', Some c', Some d') \<Rightarrow>
          Inr \<lparr>title = t', video_url = v', embed_url = e',
               thumbnail = th', channel = c', description = d'\<rparr>
      | _ \<Rightarrow>
          Inl (ValidationError (rejected
                 [(''title'', t), (''video_url'', v), (''embed_url'', e),
                  (''thumbnail'', th), (''channel'', c), (''description'', d)])))"

section \<open>The collaborators of a request\<close>

text \<open>
  The leaf clients are the four protocols of \<^verbatim>\<open>mcp/services.py\<close>
  (\<^verbatim>\<open>CodeFetcher.fetch\<close>, \<^verbatim>\<open>ContentAnalyzer.analyze\<close>, \<^verbatim>\<open>YouTubeAPI.search\<close>,
  \<^verbatim>\<open>ImageAPI.generate\<close>), held by the handlers under the names of their constructor
  arguments. A leaf returns a value of its declared type or raises; the search may also
  return \<^verbatim>\<open>None\<close> in place of a list, the image client \<^verbatim>\<open>None\<close> in place of a string.
  Three library behaviours are parameters too: the validation of a field declared
  \<^verbatim>\<open>HttpUrl\<close> (giving \<^verbatim>\<open>str(request.url)\<close>), the text \<^verbatim>\<open>str(e)\<close> of an exception that the
  code did not build itself, and the hosted model behind \<^verbatim>\<open>GeminiAnalyzer\<close>
  (\<^verbatim>\<open>self.llm.invoke\<close>: no response object, or a response with its content).
\<close>

record env =
  code_fetcher :: "string \<Rightarrow> exn + string"
  content_analyzer :: "string \<Rightarrow> string \<Rightarrow> exn + string"
  youtube_api :: "string \<Rightarrow> exn + pyval list option"
  image_api :: "string \<Rightarrow> exn + string option"
  validate_HttpUrl :: "pyval \<Rightarrow> string option"
  library_str :: "exn \<Rightarrow> string"
  llm_invoke :: "string \<Rightarrow> exn + string option"

text \<open>\<^verbatim>\<open>str(e)\<close>: the message of a \<^verbatim>\<open>ValueError(msg)\<close> is \<^verbatim>\<open>msg\<close>.\<close>

fun str_exn :: "env \<Rightarrow> exn \<Rightarrow> string" where
  "str_exn env (ValueError m) = m"
| "str_exn env e = library_str env e"

text \<open>The outbound calls a handler makes, in the order it makes them.\<close>

datatype call =
    Fetch string
  | Analyze string string
  | Search string
  | Generate string

section \<open>mcp/analyzers.py\<close>

text \<open>
  The two \<^verbatim>\<open>except\<close> clauses that close every handler:
  \<^verbatim>\<open>except ValueError as ve: raise ValueError(f"<task> failed: {str(ve)}")\<close> and
  \<^verbatim>\<open>except Exception as e: raise ValueError(f"<task> failed due to unexpected error: {str(e)}")\<close>.
\<close>

definition handler_except :: "env \<Rightarrow> string \<Rightarrow> exn \<Rightarrow> exn" where
  "handler_except env failed e =
     (if is_ValueError e then ValueError (failed @ '': '' @ str_exn env e)
      else ValueError (failed @ '' due to unexpected error: '' @ str_exn env e))"

subsection \<open>WebsiteAnalyzer.analyze\<close>

definition WebsiteAnalyzer_analyze ::
  "env \<Rightarrow> WebsiteAnalysisRequest \<Rightarrow> call list \<times> (exn + WebsiteAnalysisResponse)" where
  "WebsiteAnalyzer_analyze env request =
     (if url request = [] \<or> \<not> startswith_any (url request) [''http://'', ''https://''] then
        ([], Inl (handler_except env ''Analysis failed''
                    (ValueError ''Invalid URL. Must start with http:// or https://'')))
      else
        case code_fetcher env (url request) of
          Inl e \<Rightarrow> ([Fetch (url request)], Inl (handler_except env ''Analysis failed'' e))
        | Inr code \<Rightarrow>
            if startswith code ''Error:'' then
              ([Fetch (url request)],
               Inl (handler_except env ''Analysis failed'' (ValueError code)))
            else if WebsiteAnalysisRequest.prompt request = []
                    \<or> length (strip (WebsiteAnalysisRequest.prompt request)) = 0 then
              ([Fetch (url request)],
               Inl (handler_except env ''Analysis failed'' (ValueError ''Empty prompt provided'')))
            else
              (case content_analyzer env code (WebsiteAnalysisRequest.prompt request) of
                 Inl e \<Rightarrow>
                   ([Fetch (url request), Analyze code (WebsiteAnalysisRequest.prompt request)],
                    Inl (handler_except env ''Analysis failed'' e))
               | Inr analysis \<Rightarrow>
                   if startswith analysis ''Error:'' then
                     ([Fetch (url request), Analyze code (WebsiteAnalysisRequest.prompt request)],
                      Inl (handler_except env ''Analysis failed'' (ValueError analysis)))
                   else
                     ([Fetch (url request), Analyze code (WebsiteAnalysisRequest.prompt request)],
                      Inr (new_WebsiteAnalysisResponse (url request)
                             (WebsiteAnalysisRequest.prompt request) analysis))))"

subsection \<open>MusicSearcher.analyze\<close>

text \<open>\<^verbatim>\<open>result[key]\<close>: a dict without the key raises \<^verbatim>\<open>KeyError\<close>, an object that is no dict
  raises \<^verbatim>\<open>TypeError\<close> when subscripted with a string.\<close>

fun subscript :: "pyval \<Rightarrow> string \<Rightarrow> exn + pyval" where
  "subscript (PDict kvs) key =
     (case map_of kvs key of None \<Rightarrow> Inl (KeyError key) | Some v \<Rightarrow> Inr v)"
| "subscript v key = Inl (TypeError v)"

text \<open>The body of the \<^verbatim>\<open>try\<close> inside the loop: the six subscripts are evaluated in the
  order of the keyword arguments, then the constructor runs.\<close>

definition to_MusicVideo :: "pyval \<Rightarrow> exn + MusicVideo" where
  "to_MusicVideo result =
     (case subscript result ''title'' of Inl e \<Rightarrow> Inl e | Inr t \<Rightarrow>
     (case subscript result ''video_url'' of Inl e \<Rightarrow> Inl e | Inr v \<Rightarrow>
     (case subscript result ''embed_url'' of Inl e \<Rightarrow> Inl e | Inr em \<Rightarrow>
     (case subscript result ''thumbnail'' of Inl e \<Rightarrow> Inl e | Inr th \<Rightarrow>
     (case subscript result ''channel'' of Inl e \<Rightarrow> Inl e | Inr c \<Rightarrow>
     (case subscript result ''description'' of Inl e \<Rightarrow> Inl e | Inr d \<Rightarrow>
        new_MusicVideo t v em th c d))))))"

text \<open>The loop over \<^verbatim>\<open>results\<close>, with \<^verbatim>\<open>music_videos\<close> as the accumulator: a
  \<^verbatim>\<open>KeyError\<close> skips the record, any other exception leaves the loop.\<close>

fun convert_results :: "pyval list \<Rightarrow> MusicVideo list \<Rightarrow> exn + MusicVideo list" where
  "convert_results [] music_videos = Inr music_videos"
| "convert_results (result # rest) music_videos =
     (case to_MusicVideo result of
        Inr video \<Rightarrow> convert_results rest (music_videos @ [video])
      | Inl e \<Rightarrow> if is_KeyError e then convert_results rest music_videos else Inl e)"

definition MusicSearcher_analyze ::
  "env \<Rightarrow> MusicSearchRequest \<Rightarrow> call list \<times> (exn + MusicSearchResponse)" where
  "MusicSearcher_analyze env request =
     (if MusicSearchRequest.query request = []
         \<or> length (strip (MusicSearchRequest.query request)) = 0 then
        ([], Inl (handler_except env ''Music search failed''
                    (ValueError ''Empty search query provided'')))
      else
        case youtube_api env (MusicSearchRequest.query request) of
          Inl e \<Rightarrow>
            ([Search (MusicSearchRequest.query request)],
             Inl (handler_except env ''Music search failed'' e))
        | Inr None \<Rightarrow>
            ([Search (MusicSearchRequest.query request)],
             Inr (new_MusicSearchResponse (MusicSearchRequest.query request) []))
        | Inr (Some rs) \<Rightarrow>
            if rs = [] then
              ([Search (MusicSearchRequest.query request)],
               Inr (new_MusicSearchResponse (MusicSearchRequest.query request) []))
            else
              (case convert_results rs [] of
                 Inl e \<Rightarrow>
                   ([Search (MusicSearchRequest.query request)],
                    Inl (handler_except env ''Music search failed'' e))
               | Inr music_videos \<Rightarrow>
                   ([Search (MusicSearchRequest.query request)],
                    Inr (new_MusicSearchResponse (MusicSearchRequest.query request)
                           music_videos))))"

subsection \<open>ImageGenerator.analyze\<close>

definition ImageGenerator_analyze ::
  "env \<Rightarrow> ImageGenerationRequest \<Rightarrow> call list \<times> (exn + ImageGenerationResponse)" where
  "ImageGenerator_analyze env request =
     (if ImageGenerationRequest.prompt request = []
         \<or> length (strip (ImageGenerationRequest.prompt request)) = 0 then
        ([], Inl (handler_except env ''Image generation failed''
                    (ValueError ''Empty prompt provided'')))
      else if length (ImageGenerationRequest.prompt request) > 1000 then
        ([], Inl (handler_except env ''Image generation failed''
                    (ValueError ''Prompt too long. Maximum length is 1000 characters'')))
      else
        case image_api env (ImageGenerationRequest.prompt request) of
          Inl e \<Rightarrow>
            ([Generate (ImageGenerationRequest.prompt request)],
             Inl (handler_except env ''Image generation failed'' e))
        | Inr None \<Rightarrow>
            ([Generate (ImageGenerationRequest.prompt request)],
             Inl (handler_except env ''Image generation failed''
                    (ValueError ''No image URL returned'')))
        | Inr (Some returned_url) \<Rightarrow>
            if returned_url = [] then
              ([Generate (ImageGenerationRequest.prompt request)],
               Inl (handler_except env ''Image generation failed''
                      (ValueError ''No image URL returned'')))
            else if startswith returned_url ''Error:'' then
              ([Generate (ImageGenerationRequest.prompt request)],
               Inl (handler_except env ''Image generation failed'' (ValueError returned_url)))
            else if \<not> startswith_any returned_url [''http://'', ''https://''] then
              ([Generate (ImageGenerationRequest.prompt request)],
               Inl (handler_except env ''Image generation failed''
                      (ValueError ''Invalid image URL returned'')))
            else
              ([Generate (ImageGenerationRequest.prompt request)],
               Inr (new_ImageGenerationResponse (ImageGenerationRequest.prompt request)
                      returned_url)))"

section \<open>mcp/services.py: GeminiAnalyzer.analyze\<close>

text \<open>The f-string \<^verbatim>\<open>final_prompt\<close>: a template of nine lines, each indented by twelve
  spaces, with \<^verbatim>\<open>content[:30000]\<close> and \<^verbatim>\<open>prompt\<close> in it.\<close>

definition indent :: string where
  "indent = replicate 12 CHR '' ''"

definition final_prompt :: "string \<Rightarrow> string \<Rightarrow> string" where
  "final_prompt content prompt' =
     [CHR 0x0A] @ indent @ ''Here is the text content from a website:''
     @ [CHR 0x0A] @ indent @ ''---''
     @ [CHR 0x0A] @ indent @ take 30000 content
     @ [CHR 0x0A] @ indent @ ''---''
     @ [CHR 0x0A] @ indent
     @ [CHR 0x0A] @ indent @ ''Based on this content, please answer the following question:''
     @ [CHR 0x0A] @ indent @ prompt'
     @ [CHR 0x0A] @ indent"

text \<open>The result is paired with the messages sent to the hosted model. Every exception,
  the \<^verbatim>\<open>ValueError("Empty response from Gemini")\<close> of the body included, is turned into
  a string that starts with \<^verbatim>\<open>Error:\<close>.\<close>

definition GeminiAnalyzer_analyze :: "env \<Rightarrow> string \<Rightarrow> string \<Rightarrow> string list \<times> string" where
  "GeminiAnalyzer_analyze env content prompt' =
     (case llm_invoke env (final_prompt content prompt') of
        Inl e \<Rightarrow>
          ([final_prompt content prompt'], ''Error: Analysis failed - '' @ str_exn env e)
      | Inr None \<Rightarrow>
          ([final_prompt content prompt'],
           ''Error: Analysis failed - '' @ ''Empty response from Gemini'')
      | Inr (Some response_content) \<Rightarrow>
          if response_content = [] then
            ([final_prompt content prompt'],
             ''Error: Analysis failed - '' @ ''Empty response from Gemini'')
          else ([final_prompt content prompt'], response_content))"

section \<open>main.py\<close>

text \<open>\<^verbatim>\<open>WebsiteAnalysisRequest(**request)\<close>: \<^verbatim>\<open>url: HttpUrl\<close> and \<^verbatim>\<open>prompt: str\<close> are
  required, other keys are ignored.\<close>

definition new_WebsiteAnalysisRequest ::
  "env \<Rightarrow> (string \<times> pyval) list \<Rightarrow> exn + WebsiteAnalysisRequest" where
  "new_WebsiteAnalysisRequest env kwargs =
     (let u = (case map_of kwargs ''url'' of None \<Rightarrow> None | Some v \<Rightarrow> validate_HttpUrl env v);
          p = (case map_of kwargs ''prompt'' of None \<Rightarrow> None | Some v \<Rightarrow> validate_str v)
      in case (u, p) of
           (Some u', Some p') \<Rightarrow> Inr \<lparr>url = u', WebsiteAnalysisRequest.prompt = p'\<rparr>
         | _ \<Rightarrow>
             Inl (ValidationError
                    ((if u = None then [''url''] else [])
                     @ (if p = None then [''prompt''] else []))))"

text \<open>The three endpoints: \<^verbatim>\<open>except Exception as e: raise
  HTTPException(status_code=500, detail=str(e))\<close>.\<close>

definition analyze_website ::
  "env \<Rightarrow> WebsiteAnalysisRequest \<Rightarrow> call list \<times> (exn + WebsiteAnalysisResponse)" where
  "analyze_website env request =
     (case WebsiteAnalyzer_analyze env request of
        (tr, Inl e) \<Rightarrow> (tr, Inl (HTTPException 500 (str_exn env e)))
      | (tr, Inr result) \<Rightarrow> (tr, Inr result))"

definition search_music ::
  "env \<Rightarrow> MusicSearchRequest \<Rightarrow> call list \<times> (exn + MusicSearchResponse)" where
  "search_music env request =
     (case MusicSearcher_analyze env request of
        (tr, Inl e) \<Rightarrow> (tr, Inl (HTTPException 500 (str_exn env e)))
      | (tr, Inr result) \<Rightarrow> (tr, Inr result))"

definition generate_image ::
  "env \<Rightarrow> ImageGenerationRequest \<Rightarrow> call list \<times> (exn + ImageGenerationResponse)" where
  "generate_image env request =
     (case ImageGenerator_analyze env request of
        (tr, Inl e) \<Rightarrow> (tr, Inl (HTTPException 500 (str_exn env e)))
      | (tr, Inr result) \<Rightarrow> (tr, Inr result))"

text \<open>What the legacy endpoint returns: the response of the endpoint it chose.\<close>

datatype response =
    Website WebsiteAnalysisResponse
  | Music MusicSearchResponse
  | Image ImageGenerationResponse

definition returning :: "('a \<Rightarrow> response) \<Rightarrow> call list \<times> (exn + 'a) \<Rightarrow> call list \<times> (exn + response)" where
  "returning tag r = (case r of (tr, Inl e) \<Rightarrow> (tr, Inl e) | (tr, Inr x) \<Rightarrow> (tr, Inr (tag x)))"

text \<open>\<^verbatim>\<open>any(keyword in text.lower() for keyword in keywords)\<close>.\<close>

definition any_keyword :: "string \<Rightarrow> string list \<Rightarrow> bool" where
  "any_keyword text' keywords = list_ex (contains (lower text')) keywords"

definition invalid_request_msg :: string where
  "invalid_request_msg =
     ''Please specify a valid request type (website analysis, music search, or image generation)''"

text \<open>The body of the \<^verbatim>\<open>try\<close> of \<^verbatim>\<open>handle_agent_task\<close>. The second and the third test
  both start with \<^verbatim>\<open>"prompt" in request\<close>; a prompt that is no string has no
  \<^verbatim>\<open>lower\<close>, and the second test raises \<^verbatim>\<open>AttributeError\<close>.\<close>

definition agent_task_body :: "env \<Rightarrow> (string \<times> pyval) list \<Rightarrow> call list \<times> (exn + response)" where
  "agent_task_body env request =
     (if (case map_of request ''url'' of None \<Rightarrow> False | Some u \<Rightarrow> truthy u) then
        (case new_WebsiteAnalysisRequest env request of
           Inl e \<Rightarrow> ([], Inl e)
         | Inr r \<Rightarrow> returning Website (analyze_website env r))
      else
        (case map_of request ''prompt'' of
           None \<Rightarrow> ([], Inl (HTTPException 400 invalid_request_msg))
         | Some (PStr p) \<Rightarrow>
             if any_keyword p [''find music'', ''play music'', ''search song''] then
               returning Music (search_music env \<lparr>MusicSearchRequest.query = p\<rparr>)
             else if any_keyword p [''generate image'', ''create image''] then
               returning Image (generate_image env \<lparr>ImageGenerationRequest.prompt = p\<rparr>)
             else ([], Inl (HTTPException 400 invalid_request_msg))
         | Some v \<Rightarrow> ([], Inl (AttributeError v ''lower''))))"

text \<open>\<^verbatim>\<open>handle_agent_task\<close>: the body, inside
  \<^verbatim>\<open>try: ... except Exception as e: raise HTTPException(status_code=500, detail=str(e))\<close>.
  \<^verbatim>\<open>HTTPException\<close> is a subclass of \<^verbatim>\<open>Exception\<close>.\<close>

definition handle_agent_task :: "env \<Rightarrow> (string \<times> pyval) list \<Rightarrow> call list \<times> (exn + response)" where
  "handle_agent_task env request =
     (case agent_task_body env request of
        (tr, Inl e) \<Rightarrow> (tr, Inl (HTTPException 500 (str_exn env e)))
      | (tr, Inr result) \<Rightarrow> (tr, Inr result))"

text \<open>The HTTP status of an outcome: 200 for a returned response, the status of an
  \<^verbatim>\<open>HTTPException\<close>, and 500 from the general exception handler for anything else.\<close>

fun status_code :: "exn + 'a \<Rightarrow> nat" where
  "status_code (Inr r) = 200"
| "status_code (Inl (HTTPException st detail)) = st"
| "status_code (Inl e) = 500"

text \<open>The wiring at the top of \<^verbatim>\<open>main.py\<close>: \<^verbatim>\<open>content_analyzer = GeminiAnalyzer()\<close> and
  \<^verbatim>\<open>website_analyzer = WebsiteAnalyzer(code_fetcher, content_analyzer)\<close>. The leaf of the
  website handler is then \<^verbatim>\<open>GeminiAnalyzer.analyze\<close>, which returns a string and never
  raises.\<close>

definition production :: "env \<Rightarrow> env" where
  "production env =
     env\<lparr>content_analyzer :=
           (\<lambda>content prompt'. Inr (snd (GeminiAnalyzer_analyze env content prompt')))\<rparr>"

section \<open>The vocabulary of the specification\<close>

text \<open>The six required fields of a raw search record. A record \<^emph>\<open>misses a field\<close> when
  it is a dict without one of the six keys; it is \<^emph>\<open>complete\<close> when it is a dict that
  holds a string under each of them. \<open>video_of\<close> is the record a complete raw record
  stands for.\<close>

definition required_fields :: "string list" where
  "required_fields =
     [''title'', ''video_url'', ''embed_url'', ''thumbnail'', ''channel'', ''description'']"

fun missing_field :: "pyval \<Rightarrow> bool" where
  "missing_field (PDict kvs) = list_ex (\<lambda>k. map_of kvs k = None) required_fields"
| "missing_field v = False"

fun complete :: "pyval \<Rightarrow> bool" where
  "complete (PDict kvs) =
     list_all (\<lambda>k. case map_of kvs k of Some (PStr s) \<Rightarrow> True | _ \<Rightarrow> False) required_fields"
| "complete v = False"

definition field :: "(string \<times> pyval) list \<Rightarrow> string \<Rightarrow> string" where
  "field kvs k = (case map_of kvs k of Some (PStr s) \<Rightarrow> s | _ \<Rightarrow> [])"

fun video_of :: "pyval \<Rightarrow> MusicVideo" where
  "video_of (PDict kvs) =
     \<lparr>title = field kvs ''title'', video_url = field kvs ''video_url'',
      embed_url = field kvs ''embed_url'', thumbnail = field kvs ''thumbnail'',
      channel = field kvs ''channel'', description = field kvs ''description''\<rparr>"
| "video_of v =
     \<lparr>title = [], video_url = [], embed_url = [], thumbnail = [], channel = [],
      description = []\<rparr>"

section \<open>A test double\<close>

text \<open>An environment for running the model on concrete requests: leaf clients with fixed
  answers, a URL validation that accepts the strings with an http or https scheme, and
  short exception texts.\<close>

fun double_HttpUrl :: "pyval \<Rightarrow> string option" where
  "double_HttpUrl (PStr s) =
     (if startswith_any s [''http://'', ''https://''] then Some s else None)"
| "double_HttpUrl v = None"

fun double_str :: "exn \<Rightarrow> string" where
  "double_str (ValueError m) = m"
| "double_str (ValidationError fs) = ''validation error''"
| "double_str (KeyError k) = k"
| "double_str (TypeError v) = ''not subscriptable''"
| "double_str (AttributeError v a) = ''no attribute''"
| "double_str (HTTPException st detail) = detail"
| "double_str (OtherException m) = m"

definition double :: env where
  "double =
     \<lparr>code_fetcher = (\<lambda>u. Inr ''Example Domain''),
      content_analyzer = (\<lambda>c p. Inr ''An example page.''),
      youtube_api = (\<lambda>q. Inr (Some [])),
      image_api = (\<lambda>p. Inr (Some ''https://img.example/1.png'')),
      validate_HttpUrl = double_HttpUrl,
      library_str = double_str,
      llm_invoke = (\<lambda>m. Inr (Some ''An example page.''))\<rparr>"

definition song :: "string \<Rightarrow> pyval" where
  "song t =
     PDict [(''title'', PStr t), (''video_url'', PStr ''https://www.youtube.com/watch?v=1''),
            (''embed_url'', PStr ''https://www.youtube.com/embed/1''),
            (''thumbnail'', PStr ''https://i.ytimg.com/1.jpg''), (''channel'', PStr ''c''),
            (''description'', PStr ''d'')]"

definition song_without_channel :: pyval where
  "song_without_channel =
     PDict [(''title'', PStr ''t''), (''video_url'', PStr ''https://www.youtube.com/watch?v=2''),
            (''embed_url'', PStr ''https://www.youtube.com/embed/2''),
            (''thumbnail'', PStr ''https://i.ytimg.com/2.jpg''), (''description'', PStr ''d'')]"

definition song_with_null_title :: pyval where
  "song_with_null_title =
     PDict [(''title'', PNone), (''video_url'', PStr ''https://www.youtube.com/watch?v=3''),
            (''embed_url'', PStr ''https://www.youtube.com/embed/3''),
            (''thumbnail'', PStr ''https://i.ytimg.com/3.jpg''), (''channel'', PStr ''c''),
            (''description'', PStr ''d'')]"

text \<open>A page text of 30,001 characters.\<close>

definition long_page :: string where
  "long_page = replicate 30001 CHR ''a''"

section \<open>Facts about the string helpers\<close>

lemma strip_Nil_iff: "strip s = [] \<longleftrightarrow> (\<forall>c\<in>set s. isspace c)"
proof
  assume "strip s = []"
  then have a: "\<forall>c\<in>set (dropWhile isspace s). isspace c"
    by (simp add: strip_def dropWhile_eq_Nil_conv)
  have "dropWhile isspace s = []"
  proof (rule ccontr)
    assume n: "dropWhile isspace s \<noteq> []"
    then have "\<not> isspace (hd (dropWhile isspace s))" by (rule hd_dropWhile)
    moreover have "hd (dropWhile isspace s) \<in> set (dropWhile isspace s)"
      using n by (rule hd_in_set)
    ultimately show False using a by blast
  qed
  then show "\<forall>c\<in>set s. isspace c" by (simp add: dropWhile_eq_Nil_conv)
next
  assume "\<forall>c\<in>set s. isspace c"
  then have "dropWhile isspace s = []" by (simp add: dropWhile_eq_Nil_conv)
  then show "strip s = []" by (simp add: strip_def del: dropWhile_eq_Nil_conv)
qed

lemma strip_nonempty: "strip s \<noteq> [] \<Longrightarrow> s \<noteq> []"
  by (auto simp: strip_def)

lemma not_isspace_a: "\<not> isspace CHR ''a''"
  by (simp add: isspace_def)

section \<open>ImageGenerator: the length limit\<close>

text \<open>
  Claim C7. A prompt of more than 1000 characters makes \<^verbatim>\<open>ImageGenerator.analyze\<close> fail
  with a validation failure, and the image leaf is not called: the list of outbound calls
  is empty. The failure is the \<^verbatim>\<open>ValueError\<close> of the length check, or the one of the
  blank check when the long prompt is all white space; both are raised before the call.
\<close>

theorem ImageGenerator_rejects_long_prompt:
  assumes "length (ImageGenerationRequest.prompt request) > 1000"
  shows "ImageGenerator_analyze env request =
           ([], Inl (ValueError (''Image generation failed: '' @
                  (if strip (ImageGenerationRequest.prompt request) = []
                   then ''Empty prompt provided''
                   else ''Prompt too long. Maximum length is 1000 characters''))))"
  using assms strip_nonempty[of "ImageGenerationRequest.prompt request"]
  by (auto simp: ImageGenerator_analyze_def handler_except_def)

theorem ImageGenerator_rejects_long_prompt_witness:
  "length (ImageGenerationRequest.prompt
             \<lparr>ImageGenerationRequest.prompt = replicate 1001 CHR ''a''\<rparr>) > 1000
   \<and> ImageGenerator_analyze double
         \<lparr>ImageGenerationRequest.prompt = replicate 1001 CHR ''a''\<rparr> =
       ([], Inl (ValueError
          ''Image generation failed: Prompt too long. Maximum length is 1000 characters''))"
  using ImageGenerator_rejects_long_prompt
          [of "\<lparr>ImageGenerationRequest.prompt = replicate 1001 CHR ''a''\<rparr>" double]
  by (simp add: strip_Nil_iff not_isspace_a)

section \<open>Runs of the test double\<close>

lemma strip_find_music: "strip ''find music'' \<noteq> []"
  by (simp add: strip_Nil_iff isspace_def)

lemma strip_a_cat: "strip ''a cat'' \<noteq> []"
  by (simp add: strip_Nil_iff isspace_def)

lemma strip_what: "strip ''what is it'' \<noteq> []"
  by (simp add: strip_Nil_iff isspace_def)

lemma double_website:
  "WebsiteAnalyzer_analyze double \<lparr>url = ''http://x.com'', WebsiteAnalysisRequest.prompt = ''what is it''\<rparr>
     = ([Fetch ''http://x.com'', Analyze ''Example Domain'' ''what is it''],
        Inr (new_WebsiteAnalysisResponse ''http://x.com'' ''what is it'' ''An example page.''))"
  using strip_what
  by (simp add: WebsiteAnalyzer_analyze_def double_def startswith_any_def startswith_def)

lemma double_music:
  "MusicSearcher_analyze double \<lparr>MusicSearchRequest.query = ''find music''\<rparr> =
       ([Search ''find music''], Inr (new_MusicSearchResponse ''find music'' []))"
  using strip_find_music
  by (simp add: MusicSearcher_analyze_def double_def)

lemma double_image:
  "ImageGenerator_analyze double \<lparr>ImageGenerationRequest.prompt = ''a cat''\<rparr>
       = ([Generate ''a cat''],
          Inr (new_ImageGenerationResponse ''a cat'' ''https://img.example/1.png''))"
  using strip_a_cat
  by (simp add: ImageGenerator_analyze_def double_def startswith_any_def startswith_def)

section \<open>ImageGenerator: what the leaf returns\<close>

text \<open>
  Claim C8. For a valid prompt (not blank, at most 1000 characters), when the image leaf
  returns nothing, an empty string, a string that starts with \<^verbatim>\<open>Error:\<close>, or a string
  that starts with neither \<^verbatim>\<open>http://\<close> nor \<^verbatim>\<open>https://\<close>, the handler fails after the
  one leaf call, with the upstream failure that belongs to the case. And whatever the
  environment and the request, a response that is returned holds an http or https URL.
\<close>

theorem ImageGenerator_bad_leaf_result:
  assumes valid: "strip p \<noteq> []" "length p \<le> 1000"
    and leaf: "image_api env p = Inr r"
    and bad: "r = None \<or> r = Some []
              \<or> (\<exists>u. r = Some u \<and> (startswith u ''Error:''
                     \<or> \<not> startswith_any u [''http://'', ''https://'']))"
  shows "ImageGenerator_analyze env \<lparr>ImageGenerationRequest.prompt = p\<rparr> =
           ([Generate p],
            Inl (ValueError (''Image generation failed: '' @
              (case r of None \<Rightarrow> ''No image URL returned''
               | Some u \<Rightarrow> if u = [] then ''No image URL returned''
                           else if startswith u ''Error:'' then u
                           else ''Invalid image URL returned''))))
         \<and> (\<forall>env' request' tr resp.
               ImageGenerator_analyze env' request' = (tr, Inr resp)
               \<longrightarrow> startswith_any (image_url resp) [''http://'', ''https://''])"
proof
  have ne: "p \<noteq> []" using valid(1) by (rule strip_nonempty)
  show "ImageGenerator_analyze env \<lparr>ImageGenerationRequest.prompt = p\<rparr> =
           ([Generate p],
            Inl (ValueError (''Image generation failed: '' @
              (case r of None \<Rightarrow> ''No image URL returned''
               | Some u \<Rightarrow> if u = [] then ''No image URL returned''
                           else if startswith u ''Error:'' then u
                           else ''Invalid image URL returned''))))"
    using valid ne leaf bad
    by (auto simp: ImageGenerator_analyze_def handler_except_def)
next
  show "\<forall>env' request' tr resp.
               ImageGenerator_analyze env' request' = (tr, Inr resp)
               \<longrightarrow> startswith_any (image_url resp) [''http://'', ''https://'']"
    by (auto simp: ImageGenerator_analyze_def new_ImageGenerationResponse_def
             split: if_splits sum.splits option.splits)
qed

theorem ImageGenerator_bad_leaf_result_witness:
  "strip ''a cat'' \<noteq> [] \<and> length ''a cat'' \<le> 1000
   \<and> image_api (double\<lparr>image_api := \<lambda>p. Inr (Some ''ftp://img.example/1.png'')\<rparr>) ''a cat''
       = Inr (Some ''ftp://img.example/1.png'')
   \<and> \<not> startswith_any ''ftp://img.example/1.png'' [''http://'', ''https://'']
   \<and> ImageGenerator_analyze (double\<lparr>image_api := \<lambda>p. Inr (Some ''ftp://img.example/1.png'')\<rparr>)
         \<lparr>ImageGenerationRequest.prompt = ''a cat''\<rparr>
       = ([Generate ''a cat''],
          Inl (ValueError ''Image generation failed: Invalid image URL returned''))
   \<and> ImageGenerator_analyze double \<lparr>ImageGenerationRequest.prompt = ''a cat''\<rparr>
       = ([Generate ''a cat''],
          Inr (new_ImageGenerationResponse ''a cat'' ''https://img.example/1.png''))
   \<and> startswith_any
         (image_url (new_ImageGenerationResponse ''a cat'' ''https://img.example/1.png''))
         [''http://'', ''https://'']"
proof -
  have bad: "\<not> startswith_any ''ftp://img.example/1.png'' [''http://'', ''https://'']"
    by (simp add: startswith_any_def startswith_def)
  have run: "ImageGenerator_analyze double \<lparr>ImageGenerationRequest.prompt = ''a cat''\<rparr>
       = ([Generate ''a cat''],
          Inr (new_ImageGenerationResponse ''a cat'' ''https://img.example/1.png''))"
    using strip_a_cat
    by (simp add: ImageGenerator_analyze_def double_def startswith_any_def startswith_def)
  from ImageGenerator_bad_leaf_result
         [of "''a cat''" "double\<lparr>image_api := \<lambda>p. Inr (Some ''ftp://img.example/1.png'')\<rparr>"
             "Some ''ftp://img.example/1.png''"]
  show ?thesis using strip_a_cat bad run
    by (simp add: startswith_def)
qed

section \<open>MusicSearcher: no results\<close>

text \<open>
  Claim C6. For a query that is not blank, when the video-search leaf returns no list or
  an empty list, \<^verbatim>\<open>MusicSearcher.analyze\<close> returns a response with the query as it was
  given and with no results; it does not fail.
\<close>

theorem MusicSearcher_no_results:
  assumes "strip q \<noteq> []"
    and "youtube_api env q = Inr None \<or> youtube_api env q = Inr (Some [])"
  shows "MusicSearcher_analyze env \<lparr>MusicSearchRequest.query = q\<rparr> =
           ([Search q],
            Inr \<lparr>MusicSearchResponse.task = ''music_search'', MusicSearchResponse.query = q,
                 results = [], MusicSearchResponse.error = None\<rparr>)"
  using assms strip_nonempty[OF assms(1)]
  by (auto simp: MusicSearcher_analyze_def new_MusicSearchResponse_def)

theorem MusicSearcher_no_results_witness:
  "strip ''find music'' \<noteq> []
   \<and> youtube_api double ''find music'' = Inr (Some [])
   \<and> MusicSearcher_analyze double \<lparr>MusicSearchRequest.query = ''find music''\<rparr> =
       ([Search ''find music''],
        Inr \<lparr>MusicSearchResponse.task = ''music_search'',
             MusicSearchResponse.query = ''find music'',
             results = [], MusicSearchResponse.error = None\<rparr>)"
proof -
  have l: "youtube_api double ''find music'' = Inr (Some [])" by (simp add: double_def)
  from MusicSearcher_no_results[of "''find music''" double] strip_find_music l
  show ?thesis by simp
qed

section \<open>The task tags\<close>

text \<open>
  Claim C9. Every response a handler returns carries the tag of that handler:
  \<^verbatim>\<open>website_analysis\<close>, \<^verbatim>\<open>music_search\<close>, \<^verbatim>\<open>image_generation\<close>, for every environment
  and every request.
\<close>

theorem task_tags:
  "(WebsiteAnalyzer_analyze env w = (tr1, Inr r1)
      \<longrightarrow> WebsiteAnalysisResponse.task r1 = ''website_analysis'')
   \<and> (MusicSearcher_analyze env m = (tr2, Inr r2)
      \<longrightarrow> MusicSearchResponse.task r2 = ''music_search'')
   \<and> (ImageGenerator_analyze env i = (tr3, Inr r3)
      \<longrightarrow> ImageGenerationResponse.task r3 = ''image_generation'')"
proof (intro conjI impI)
  assume "WebsiteAnalyzer_analyze env w = (tr1, Inr r1)"
  then show "WebsiteAnalysisResponse.task r1 = ''website_analysis''"
    by (auto simp: WebsiteAnalyzer_analyze_def new_WebsiteAnalysisResponse_def
             split: if_splits sum.splits)
next
  assume "MusicSearcher_analyze env m = (tr2, Inr r2)"
  then show "MusicSearchResponse.task r2 = ''music_search''"
    by (auto simp: MusicSearcher_analyze_def new_MusicSearchResponse_def
             split: if_splits sum.splits option.splits)
next
  assume "ImageGenerator_analyze env i = (tr3, Inr r3)"
  then show "ImageGenerationResponse.task r3 = ''image_generation''"
    by (auto simp: ImageGenerator_analyze_def new_ImageGenerationResponse_def
             split: if_splits sum.splits option.splits)
qed

theorem task_tags_witness:
  "WebsiteAnalyzer_analyze double \<lparr>url = ''http://x.com'', WebsiteAnalysisRequest.prompt = ''what is it''\<rparr>
     = ([Fetch ''http://x.com'', Analyze ''Example Domain'' ''what is it''],
        Inr (new_WebsiteAnalysisResponse ''http://x.com'' ''what is it'' ''An example page.''))
   \<and> WebsiteAnalysisResponse.task
        (new_WebsiteAnalysisResponse ''http://x.com'' ''what is it'' ''An example page.'')
       = ''website_analysis''
   \<and> MusicSearcher_analyze double \<lparr>MusicSearchRequest.query = ''find music''\<rparr> =
       ([Search ''find music''], Inr (new_MusicSearchResponse ''find music'' []))
   \<and> MusicSearchResponse.task (new_MusicSearchResponse ''find music'' []) = ''music_search''
   \<and> ImageGenerator_analyze double \<lparr>ImageGenerationRequest.prompt = ''a cat''\<rparr>
       = ([Generate ''a cat''],
          Inr (new_ImageGenerationResponse ''a cat'' ''https://img.example/1.png''))
   \<and> ImageGenerationResponse.task
        (new_ImageGenerationResponse ''a cat'' ''https://img.example/1.png'')
       = ''image_generation''"
  using task_tags[of double
          "\<lparr>url = ''http://x.com'', WebsiteAnalysisRequest.prompt = ''what is it''\<rparr>"
          "[Fetch ''http://x.com'', Analyze ''Example Domain'' ''what is it'']"
          "new_WebsiteAnalysisResponse ''http://x.com'' ''what is it'' ''An example page.''"
          "\<lparr>MusicSearchRequest.query = ''find music''\<rparr>"
          "[Search ''find music'']" "new_MusicSearchResponse ''find music'' []"
          "\<lparr>ImageGenerationRequest.prompt = ''a cat''\<rparr>"
          "[Generate ''a cat'']"
          "new_ImageGenerationResponse ''a cat'' ''https://img.example/1.png''"]
        double_website double_music double_image
  by simp

section \<open>WebsiteAnalyzer: a blank prompt\<close>

lemma startswith_any_nonempty:
  "startswith_any u [''http://'', ''https://''] \<Longrightarrow> u \<noteq> []"
  by (auto simp: startswith_any_def startswith_def)

lemma http_x_com: "startswith_any ''http://x.com'' [''http://'', ''https://'']"
  by (simp add: startswith_any_def startswith_def)

text \<open>
  Claim C3 says that a request with a valid http or https URL and a blank prompt fails
  before any outbound call, so without a call of the fetch leaf. The handler checks the
  prompt only after it has fetched the page: on such a request the fetch leaf is called.
\<close>

theorem WebsiteAnalyzer_blank_prompt_counterexample:
  "startswith_any ''http://x.com'' [''http://'', ''https://'']
   \<and> strip '''' = []
   \<and> WebsiteAnalyzer_analyze double
        \<lparr>url = ''http://x.com'', WebsiteAnalysisRequest.prompt = ''''\<rparr>
      = ([Fetch ''http://x.com''],
         Inl (ValueError ''Analysis failed: Empty prompt provided''))
   \<and> [Fetch ''http://x.com''] \<noteq> []"
  using http_x_com
  by (simp add: WebsiteAnalyzer_analyze_def double_def strip_def startswith_def
                handler_except_def)

text \<open>
  Claim C3, amended. For a URL that starts with \<^verbatim>\<open>http://\<close> or \<^verbatim>\<open>https://\<close> and a blank
  prompt, the handler calls the fetch leaf once, never calls the LLM leaf, and fails: with
  the failure of the fetch when the fetch raises or returns an \<^verbatim>\<open>Error:\<close> text, and
  otherwise with the validation failure \<^verbatim>\<open>Empty prompt provided\<close>.
\<close>

theorem WebsiteAnalyzer_blank_prompt:
  assumes "startswith_any u [''http://'', ''https://'']" and "strip p = []"
  shows "WebsiteAnalyzer_analyze env \<lparr>url = u, WebsiteAnalysisRequest.prompt = p\<rparr> =
           ([Fetch u],
            Inl (case code_fetcher env u of
                   Inl e \<Rightarrow> handler_except env ''Analysis failed'' e
                 | Inr code \<Rightarrow>
                     ValueError (''Analysis failed: '' @
                       (if startswith code ''Error:'' then code
                        else ''Empty prompt provided''))))"
  using assms startswith_any_nonempty[OF assms(1)]
  by (auto simp: WebsiteAnalyzer_analyze_def handler_except_def split: sum.splits)

theorem WebsiteAnalyzer_blank_prompt_witness:
  "startswith_any ''http://x.com'' [''http://'', ''https://'']
   \<and> strip ''  '' = []
   \<and> WebsiteAnalyzer_analyze double
        \<lparr>url = ''http://x.com'', WebsiteAnalysisRequest.prompt = ''  ''\<rparr>
      = ([Fetch ''http://x.com''],
         Inl (ValueError ''Analysis failed: Empty prompt provided''))"
proof -
  have b: "strip ''  '' = []" by (simp add: strip_Nil_iff isspace_def)
  from WebsiteAnalyzer_blank_prompt[OF http_x_com b, of double]
  show ?thesis using http_x_com b by (simp add: double_def startswith_def)
qed

section \<open>WebsiteAnalyzer: the page text given to the LLM leaf\<close>

lemma not_startswith_replicate:
  "0 < n \<Longrightarrow> c \<noteq> x \<Longrightarrow> \<not> startswith (replicate n c) (x # xs)"
  by (cases n) (auto simp: startswith_def)

lemma long_page_no_error: "\<not> startswith long_page ''Error:''"
  unfolding long_page_def by (rule not_startswith_replicate) simp_all

lemma long_page_length: "length long_page = 30001"
  by (simp add: long_page_def)

lemma long_page_not_prefix: "long_page \<noteq> take 30000 long_page"
proof
  assume "long_page = take 30000 long_page"
  then have "length long_page = length (take 30000 long_page)" by simp
  then show False by (simp add: long_page_length)
qed

lemma an_example_no_error: "\<not> startswith ''An example page.'' ''Error:''"
  by (simp add: startswith_def)

text \<open>
  Claim C4 says that the handler passes the 30,000-character prefix of the page text to
  the LLM leaf. The handler passes the text it fetched, whole: with a page of 30,001
  characters the call of the leaf carries all of them.
\<close>

theorem WebsiteAnalyzer_truncation_counterexample:
  "30000 < length long_page
   \<and> WebsiteAnalyzer_analyze (double\<lparr>code_fetcher := \<lambda>u. Inr long_page\<rparr>)
        \<lparr>url = ''http://x.com'', WebsiteAnalysisRequest.prompt = ''what is it''\<rparr>
      = ([Fetch ''http://x.com'', Analyze long_page ''what is it''],
         Inr (new_WebsiteAnalysisResponse ''http://x.com'' ''what is it'' ''An example page.''))
   \<and> long_page \<noteq> take 30000 long_page"
  using http_x_com strip_what long_page_no_error long_page_not_prefix an_example_no_error
  by (simp add: WebsiteAnalyzer_analyze_def double_def long_page_length)

lemma final_prompt_prefix: "final_prompt (take 30000 content) p = final_prompt content p"
  by (simp add: final_prompt_def)

lemma GeminiAnalyzer_sends: "fst (GeminiAnalyzer_analyze env content p) = [final_prompt content p]"
  by (simp add: GeminiAnalyzer_analyze_def split: sum.splits option.splits)

text \<open>
  Claim C4, amended. On the success path, with the wiring of \<^verbatim>\<open>main.py\<close>, the handler
  calls the LLM leaf with the whole page text and the prompt; the leaf,
  \<^verbatim>\<open>GeminiAnalyzer.analyze\<close>, sends one message to the hosted model, whose template holds
  the first 30,000 characters of the page text and the prompt, and the answer becomes the
  \<^verbatim>\<open>analysis_result\<close>. What the leaf does depends on that prefix only.
\<close>

theorem GeminiAnalyzer_truncates:
  assumes "WebsiteAnalyzer_analyze (production env) request = (tr, Inr resp)"
    and "code_fetcher env (url request) = Inr code"
  shows "tr = [Fetch (url request), Analyze code (WebsiteAnalysisRequest.prompt request)]
         \<and> GeminiAnalyzer_analyze env code (WebsiteAnalysisRequest.prompt request)
             = ([[CHR 0x0A] @ indent @ ''Here is the text content from a website:''
                 @ [CHR 0x0A] @ indent @ ''---''
                 @ [CHR 0x0A] @ indent @ take 30000 code
                 @ [CHR 0x0A] @ indent @ ''---''
                 @ [CHR 0x0A] @ indent
                 @ [CHR 0x0A] @ indent
                 @ ''Based on this content, please answer the following question:''
                 @ [CHR 0x0A] @ indent @ WebsiteAnalysisRequest.prompt request
                 @ [CHR 0x0A] @ indent],
                analysis_result resp)
         \<and> GeminiAnalyzer_analyze env (take 30000 code) (WebsiteAnalysisRequest.prompt request)
             = GeminiAnalyzer_analyze env code (WebsiteAnalysisRequest.prompt request)"
proof (intro conjI)
  let ?p = "WebsiteAnalysisRequest.prompt request"
  have ca: "content_analyzer (production env) code ?p = Inr (snd (GeminiAnalyzer_analyze env code ?p))"
    by (simp add: production_def)
  have cf: "code_fetcher (production env) (url request) = Inr code"
    using assms(2) by (simp add: production_def)
  from assms(1) cf ca
  have both: "tr = [Fetch (url request), Analyze code ?p]
              \<and> analysis_result resp = snd (GeminiAnalyzer_analyze env code ?p)"
    by (auto simp: WebsiteAnalyzer_analyze_def new_WebsiteAnalysisResponse_def
             split: if_splits)
  then show "tr = [Fetch (url request), Analyze code ?p]" by simp
  have "GeminiAnalyzer_analyze env code ?p
          = (fst (GeminiAnalyzer_analyze env code ?p), snd (GeminiAnalyzer_analyze env code ?p))"
    by simp
  also have "\<dots> = ([final_prompt code ?p], analysis_result resp)"
    using both by (simp add: GeminiAnalyzer_sends)
  finally show "GeminiAnalyzer_analyze env code ?p
             = ([[CHR 0x0A] @ indent @ ''Here is the text content from a website:''
                 @ [CHR 0x0A] @ indent @ ''---''
                 @ [CHR 0x0A] @ indent @ take 30000 code
                 @ [CHR 0x0A] @ indent @ ''---''
                 @ [CHR 0x0A] @ indent
                 @ [CHR 0x0A] @ indent
                 @ ''Based on this content, please answer the following question:''
                 @ [CHR 0x0A] @ indent @ ?p
                 @ [CHR 0x0A] @ indent],
                analysis_result resp)"
    by (simp add: final_prompt_def)
  show "GeminiAnalyzer_analyze env (take 30000 code) ?p = GeminiAnalyzer_analyze env code ?p"
    by (simp add: GeminiAnalyzer_analyze_def final_prompt_prefix
             split: sum.splits option.splits)
qed

lemma production_long_run:
  "WebsiteAnalyzer_analyze (production (double\<lparr>code_fetcher := \<lambda>u. Inr long_page\<rparr>))
        \<lparr>url = ''http://x.com'', WebsiteAnalysisRequest.prompt = ''what is it''\<rparr>
      = ([Fetch ''http://x.com'', Analyze long_page ''what is it''],
         Inr (new_WebsiteAnalysisResponse ''http://x.com'' ''what is it'' ''An example page.''))"
  using http_x_com strip_what long_page_no_error an_example_no_error
  by (simp add: WebsiteAnalyzer_analyze_def production_def double_def
                GeminiAnalyzer_analyze_def)

theorem GeminiAnalyzer_truncates_witness:
  "WebsiteAnalyzer_analyze (production (double\<lparr>code_fetcher := \<lambda>u. Inr long_page\<rparr>))
        \<lparr>url = ''http://x.com'', WebsiteAnalysisRequest.prompt = ''what is it''\<rparr>
      = ([Fetch ''http://x.com'', Analyze long_page ''what is it''],
         Inr (new_WebsiteAnalysisResponse ''http://x.com'' ''what is it'' ''An example page.''))
   \<and> code_fetcher (double\<lparr>code_fetcher := \<lambda>u. Inr long_page\<rparr>) ''http://x.com''
       = Inr long_page
   \<and> 30000 < length long_page
   \<and> GeminiAnalyzer_analyze (double\<lparr>code_fetcher := \<lambda>u. Inr long_page\<rparr>)
        long_page ''what is it''
       = ([[CHR 0x0A] @ indent @ ''Here is the text content from a website:''
           @ [CHR 0x0A] @ indent @ ''---''
           @ [CHR 0x0A] @ indent @ replicate 30000 CHR ''a''
           @ [CHR 0x0A] @ indent @ ''---''
           @ [CHR 0x0A] @ indent
           @ [CHR 0x0A] @ indent
           @ ''Based on this content, please answer the following question:''
           @ [CHR 0x0A] @ indent @ ''what is it''
           @ [CHR 0x0A] @ indent],
          ''An example page.'')"
proof -
  have f: "code_fetcher (double\<lparr>code_fetcher := \<lambda>u. Inr long_page\<rparr>)
             (url \<lparr>url = ''http://x.com'', WebsiteAnalysisRequest.prompt = ''what is it''\<rparr>)
           = Inr long_page"
    by simp
  have t: "take 30000 long_page = replicate 30000 CHR ''a''"
    by (simp add: long_page_def)
  from GeminiAnalyzer_truncates[OF production_long_run f]
  show ?thesis
    using production_long_run
    by (simp add: long_page_length t new_WebsiteAnalysisResponse_def)
qed

section \<open>MusicSearcher: converting the raw records\<close>

lemma to_MusicVideo_missing:
  "missing_field r \<Longrightarrow> \<exists>k. to_MusicVideo r = Inl (KeyError k)"
  by (cases r) (auto simp: to_MusicVideo_def required_fields_def split: option.splits)

lemma complete_field:
  "complete (PDict kvs) \<Longrightarrow> k \<in> set required_fields \<Longrightarrow>
   map_of kvs k = Some (PStr (field kvs k))"
proof -
  assume "complete (PDict kvs)" and "k \<in> set required_fields"
  then have "case map_of kvs k of Some (PStr s) \<Rightarrow> True | _ \<Rightarrow> False"
    by (simp add: list_all_iff)
  then show ?thesis
    by (cases "map_of kvs k") (auto simp: field_def split: pyval.splits)
qed

lemma new_MusicVideo_strings:
  "new_MusicVideo (PStr t) (PStr v) (PStr e) (PStr th) (PStr c) (PStr d) =
     Inr \<lparr>title = t, video_url = v, embed_url = e, thumbnail = th, channel = c,
          description = d\<rparr>"
  by (simp add: new_MusicVideo_def)

lemma to_MusicVideo_complete: "complete r \<Longrightarrow> to_MusicVideo r = Inr (video_of r)"
proof (cases r)
  case (PDict kvs)
  assume c: "complete r"
  have f: "\<And>k. k \<in> set required_fields \<Longrightarrow> map_of kvs k = Some (PStr (field kvs k))"
    using c PDict complete_field by blast
  have "map_of kvs ''title'' = Some (PStr (field kvs ''title''))"
       "map_of kvs ''video_url'' = Some (PStr (field kvs ''video_url''))"
       "map_of kvs ''embed_url'' = Some (PStr (field kvs ''embed_url''))"
       "map_of kvs ''thumbnail'' = Some (PStr (field kvs ''thumbnail''))"
       "map_of kvs ''channel'' = Some (PStr (field kvs ''channel''))"
       "map_of kvs ''description'' = Some (PStr (field kvs ''description''))"
    by (rule f, simp add: required_fields_def)+
  then show ?thesis using PDict
    by (simp add: to_MusicVideo_def new_MusicVideo_strings)
qed simp_all

lemma complete_not_missing: "complete r \<Longrightarrow> \<not> missing_field r"
  by (cases r) (auto simp: required_fields_def split: option.splits)

lemma convert_results_filter:
  "\<forall>r\<in>set rs. missing_field r \<or> complete r \<Longrightarrow>
   convert_results rs acc = Inr (acc @ map video_of (filter (\<lambda>r. \<not> missing_field r) rs))"
proof (induction rs arbitrary: acc)
  case Nil
  then show ?case by simp
next
  case (Cons r rs)
  then have rest: "\<forall>r\<in>set rs. missing_field r \<or> complete r" by simp
  show ?case
  proof (cases "missing_field r")
    case True
    then obtain k where "to_MusicVideo r = Inl (KeyError k)"
      using to_MusicVideo_missing by blast
    then show ?thesis using True Cons.IH[OF rest] by simp
  next
    case False
    then have c: "complete r" using Cons.prems by simp
    then show ?thesis using False Cons.IH[OF rest] to_MusicVideo_complete[OF c] by simp
  qed
qed

lemma song_complete: "complete (song t)"
  by (simp add: song_def required_fields_def)

lemma song_not_missing: "\<not> missing_field (song t)"
  by (simp add: song_def required_fields_def)

lemma song_without_channel_missing: "missing_field song_without_channel"
  by (simp add: song_without_channel_def required_fields_def)

lemma convert_results_fails:
  "\<forall>x\<in>set pre. \<forall>e'. to_MusicVideo x = Inl e' \<longrightarrow> is_KeyError e' \<Longrightarrow>
   to_MusicVideo r = Inl e \<Longrightarrow> \<not> is_KeyError e \<Longrightarrow>
   convert_results (pre @ r # post) acc = Inl e"
proof (induction pre arbitrary: acc)
  case Nil
  then show ?case by simp
next
  case (Cons x pre)
  then show ?case by (cases "to_MusicVideo x") auto
qed

lemma song_converts: "to_MusicVideo (song t) = Inr (video_of (song t))"
  by (rule to_MusicVideo_complete) (rule song_complete)

lemma null_title_rejected:
  "to_MusicVideo song_with_null_title = Inl (ValidationError [''title''])"
  by (simp add: to_MusicVideo_def song_with_null_title_def new_MusicVideo_def rejected_def)

lemma validate_str_cases: "validate_str v = None \<or> (\<exists>s. v = PStr s)"
  by (cases v) simp_all

lemma new_MusicVideo_rejects:
  assumes "\<not> (\<exists>a b c' d' e' f. t = PStr a \<and> v = PStr b \<and> e = PStr c' \<and> th = PStr d'
               \<and> c = PStr e' \<and> d = PStr f)"
  shows "\<exists>fs. new_MusicVideo t v e th c d = Inl (ValidationError fs)"
proof -
  have "validate_str t = None \<or> validate_str v = None \<or> validate_str e = None
        \<or> validate_str th = None \<or> validate_str c = None \<or> validate_str d = None"
    using assms validate_str_cases by metis
  then show ?thesis
    by (auto simp: new_MusicVideo_def split: option.splits)
qed

lemma other_failures:
  assumes "\<not> missing_field r" and "\<not> complete r"
  shows "\<exists>e. to_MusicVideo r = Inl e \<and> \<not> is_KeyError e"
proof (cases r)
  case (PDict kvs)
  from assms(1) PDict obtain t v e th c d where
    k: "map_of kvs ''title'' = Some t" "map_of kvs ''video_url'' = Some v"
       "map_of kvs ''embed_url'' = Some e" "map_of kvs ''thumbnail'' = Some th"
       "map_of kvs ''channel'' = Some c" "map_of kvs ''description'' = Some d"
    by (auto simp: required_fields_def)
  have "\<not> (\<exists>a b c' d' e' f. t = PStr a \<and> v = PStr b \<and> e = PStr c' \<and> th = PStr d'
               \<and> c = PStr e' \<and> d = PStr f)"
    using assms(2) PDict k by (auto simp: required_fields_def)
  then obtain fs where "new_MusicVideo t v e th c d = Inl (ValidationError fs)"
    using new_MusicVideo_rejects by blast
  then show ?thesis using PDict k by (simp add: to_MusicVideo_def)
qed (simp_all add: to_MusicVideo_def)

lemma convertible_iff:
  "(missing_field r \<or> complete r) \<longleftrightarrow> (\<forall>e. to_MusicVideo r = Inl e \<longrightarrow> is_KeyError e)"
proof
  assume "missing_field r \<or> complete r"
  then show "\<forall>e. to_MusicVideo r = Inl e \<longrightarrow> is_KeyError e"
    using to_MusicVideo_missing to_MusicVideo_complete by fastforce
next
  assume "\<forall>e. to_MusicVideo r = Inl e \<longrightarrow> is_KeyError e"
  then show "missing_field r \<or> complete r"
    using other_failures by blast
qed

lemma video_of_fields:
  assumes "complete r"
  shows "\<exists>kvs. r = PDict kvs
           \<and> map_of kvs ''title'' = Some (PStr (title (video_of r)))
           \<and> map_of kvs ''video_url'' = Some (PStr (video_url (video_of r)))
           \<and> map_of kvs ''embed_url'' = Some (PStr (embed_url (video_of r)))
           \<and> map_of kvs ''thumbnail'' = Some (PStr (thumbnail (video_of r)))
           \<and> map_of kvs ''channel'' = Some (PStr (channel (video_of r)))
           \<and> map_of kvs ''description'' = Some (PStr (description (video_of r)))"
proof (cases r)
  case (PDict kvs)
  have f: "\<And>k. k \<in> set required_fields \<Longrightarrow> map_of kvs k = Some (PStr (field kvs k))"
    using assms PDict complete_field by blast
  have "map_of kvs ''title'' = Some (PStr (field kvs ''title''))"
       "map_of kvs ''video_url'' = Some (PStr (field kvs ''video_url''))"
       "map_of kvs ''embed_url'' = Some (PStr (field kvs ''embed_url''))"
       "map_of kvs ''thumbnail'' = Some (PStr (field kvs ''thumbnail''))"
       "map_of kvs ''channel'' = Some (PStr (field kvs ''channel''))"
       "map_of kvs ''description'' = Some (PStr (field kvs ''description''))"
    by (rule f, simp add: required_fields_def)+
  then show ?thesis using PDict by simp
qed (use assms in simp_all)

lemma video_of_song:
  "video_of (song t) =
     \<lparr>title = t, video_url = ''https://www.youtube.com/watch?v=1'',
      embed_url = ''https://www.youtube.com/embed/1'',
      thumbnail = ''https://i.ytimg.com/1.jpg'', channel = ''c'', description = ''d''\<rparr>"
  by (simp add: song_def field_def)

text \<open>
  Claim C5 speaks of every non-empty list of raw records: the records that miss a field
  are left out and all the others are converted. A record that fails to convert for
  another reason ends the whole search, so on a list that holds such a record next to one
  that misses a field the others are not converted: nothing is returned, the complete
  record after it included.
\<close>

theorem MusicSearcher_skips_missing_counterexample:
  "missing_field song_without_channel
   \<and> complete (song ''b'')
   \<and> MusicSearcher_analyze
        (double\<lparr>youtube_api :=
           \<lambda>q. Inr (Some [song_without_channel, song_with_null_title, song ''b''])\<rparr>)
        \<lparr>MusicSearchRequest.query = ''find music''\<rparr>
       = ([Search ''find music''], Inl (ValueError ''Music search failed: validation error''))"
proof -
  have k: "to_MusicVideo song_without_channel = Inl (KeyError ''channel'')"
    by (simp add: to_MusicVideo_def song_without_channel_def)
  show ?thesis
    using strip_find_music k null_title_rejected
    by (simp add: MusicSearcher_analyze_def handler_except_def double_def
                  song_without_channel_missing song_complete)
qed

text \<open>
  Claim C5, amended. When no record of the list fails to convert for a reason other than a
  missing key (by \<open>convertible_iff\<close>: every record is a dict that either lacks one of the
  six keys or holds a string under each of them), \<^verbatim>\<open>MusicSearcher.analyze\<close> succeeds
  after its one leaf call, with the query as given and no error; its \<^verbatim>\<open>results\<close> are the
  records that miss no field, converted, in the order of the leaf. A record that misses a
  field is left out and does not stop the loop, and every result is whole: each of its six
  fields is the string the raw record holds under that key.
\<close>

theorem MusicSearcher_skips_missing:
  assumes "strip q \<noteq> []"
    and "youtube_api env q = Inr (Some rs)"
    and "\<forall>r\<in>set rs. \<forall>e. to_MusicVideo r = Inl e \<longrightarrow> is_KeyError e"
  shows "MusicSearcher_analyze env \<lparr>MusicSearchRequest.query = q\<rparr> =
           ([Search q],
            Inr \<lparr>MusicSearchResponse.task = ''music_search'', MusicSearchResponse.query = q,
                 results = map video_of (filter (\<lambda>r. \<not> missing_field r) rs),
                 MusicSearchResponse.error = None\<rparr>)
         \<and> (\<forall>r\<in>set rs. \<not> missing_field r \<longrightarrow>
               (\<exists>kvs. r = PDict kvs
                  \<and> map_of kvs ''title'' = Some (PStr (title (video_of r)))
                  \<and> map_of kvs ''video_url'' = Some (PStr (video_url (video_of r)))
                  \<and> map_of kvs ''embed_url'' = Some (PStr (embed_url (video_of r)))
                  \<and> map_of kvs ''thumbnail'' = Some (PStr (thumbnail (video_of r)))
                  \<and> map_of kvs ''channel'' = Some (PStr (channel (video_of r)))
                  \<and> map_of kvs ''description'' = Some (PStr (description (video_of r)))))"
proof
  have mc: "\<forall>r\<in>set rs. missing_field r \<or> complete r"
    using assms(3) convertible_iff by blast
  show "MusicSearcher_analyze env \<lparr>MusicSearchRequest.query = q\<rparr> =
           ([Search q],
            Inr \<lparr>MusicSearchResponse.task = ''music_search'', MusicSearchResponse.query = q,
                 results = map video_of (filter (\<lambda>r. \<not> missing_field r) rs),
                 MusicSearchResponse.error = None\<rparr>)"
    using assms(1,2) strip_nonempty[OF assms(1)] convert_results_filter[OF mc, of "[]"]
    by (auto simp: MusicSearcher_analyze_def new_MusicSearchResponse_def)
  show "\<forall>r\<in>set rs. \<not> missing_field r \<longrightarrow>
               (\<exists>kvs. r = PDict kvs
                  \<and> map_of kvs ''title'' = Some (PStr (title (video_of r)))
                  \<and> map_of kvs ''video_url'' = Some (PStr (video_url (video_of r)))
                  \<and> map_of kvs ''embed_url'' = Some (PStr (embed_url (video_of r)))
                  \<and> map_of kvs ''thumbnail'' = Some (PStr (thumbnail (video_of r)))
                  \<and> map_of kvs ''channel'' = Some (PStr (channel (video_of r)))
                  \<and> map_of kvs ''description'' = Some (PStr (description (video_of r))))"
    using mc video_of_fields by blast
qed

theorem MusicSearcher_skips_missing_witness:
  "strip ''find music'' \<noteq> []
   \<and> youtube_api (double\<lparr>youtube_api :=
          \<lambda>q. Inr (Some [song ''a'', song_without_channel, song ''b''])\<rparr>) ''find music''
       = Inr (Some [song ''a'', song_without_channel, song ''b''])
   \<and> to_MusicVideo song_without_channel = Inl (KeyError ''channel'')
   \<and> is_KeyError (KeyError ''channel'')
   \<and> missing_field song_without_channel
   \<and> MusicSearcher_analyze (double\<lparr>youtube_api :=
          \<lambda>q. Inr (Some [song ''a'', song_without_channel, song ''b''])\<rparr>)
        \<lparr>MusicSearchRequest.query = ''find music''\<rparr>
       = ([Search ''find music''],
          Inr \<lparr>MusicSearchResponse.task = ''music_search'',
               MusicSearchResponse.query = ''find music'',
               results =
                 [\<lparr>title = ''a'', video_url = ''https://www.youtube.com/watch?v=1'',
                   embed_url = ''https://www.youtube.com/embed/1'',
                   thumbnail = ''https://i.ytimg.com/1.jpg'', channel = ''c'',
                   description = ''d''\<rparr>,
                  \<lparr>title = ''b'', video_url = ''https://www.youtube.com/watch?v=1'',
                   embed_url = ''https://www.youtube.com/embed/1'',
                   thumbnail = ''https://i.ytimg.com/1.jpg'', channel = ''c'',
                   description = ''d''\<rparr>],
               MusicSearchResponse.error = None\<rparr>)"
proof -
  let ?env = "double\<lparr>youtube_api :=
          \<lambda>q. Inr (Some [song ''a'', song_without_channel, song ''b''])\<rparr>"
  have l: "youtube_api ?env ''find music''
       = Inr (Some [song ''a'', song_without_channel, song ''b''])" by simp
  have k: "to_MusicVideo song_without_channel = Inl (KeyError ''channel'')"
    by (simp add: to_MusicVideo_def song_without_channel_def)
  have a: "\<forall>r\<in>set [song ''a'', song_without_channel, song ''b''].
             \<forall>e. to_MusicVideo r = Inl e \<longrightarrow> is_KeyError e"
    using k by (auto simp: song_converts)
  from MusicSearcher_skips_missing[OF strip_find_music l a]
  have "MusicSearcher_analyze ?env \<lparr>MusicSearchRequest.query = ''find music''\<rparr> =
           ([Search ''find music''],
            Inr \<lparr>MusicSearchResponse.task = ''music_search'',
                 MusicSearchResponse.query = ''find music'',
                 results = map video_of (filter (\<lambda>r. \<not> missing_field r)
                             [song ''a'', song_without_channel, song ''b'']),
                 MusicSearchResponse.error = None\<rparr>)"
    by (rule conjunct1)
  then show ?thesis
    using strip_find_music l k
    by (simp add: song_not_missing song_without_channel_missing video_of_song)
qed

text \<open>
  Claim C10 says that a conversion that fails with anything but a \<^verbatim>\<open>KeyError\<close>, for
  example on a field value of an invalid type, ends the search with the
  \<^emph>\<open>unexpected error\<close> failure. A field value of an invalid type makes the constructor of
  \<^verbatim>\<open>MusicVideo\<close> raise its validation error, which is a \<^verbatim>\<open>ValueError\<close>: the first
  \<^verbatim>\<open>except\<close> clause of the handler takes it, and the message is the plain one.
\<close>

theorem MusicSearcher_aborts_counterexample:
  "to_MusicVideo song_with_null_title = Inl (ValidationError [''title''])
   \<and> \<not> is_KeyError (ValidationError [''title''])
   \<and> MusicSearcher_analyze
        (double\<lparr>youtube_api := \<lambda>q. Inr (Some [song ''a'', song_with_null_title])\<rparr>)
        \<lparr>MusicSearchRequest.query = ''find music''\<rparr>
       = ([Search ''find music''], Inl (ValueError ''Music search failed: validation error''))
   \<and> ValueError ''Music search failed: validation error''
       \<noteq> ValueError (''Music search failed due to unexpected error: ''
                        @ str_exn double (ValidationError [''title'']))"
  using strip_find_music null_title_rejected song_converts[of "''a''"]
  by (simp add: MusicSearcher_analyze_def handler_except_def double_def)

text \<open>
  Claim C10, amended. When the conversion of a record fails with an exception that is no
  \<^verbatim>\<open>KeyError\<close>, and the records before it were converted or skipped, the whole search
  fails after the one leaf call and returns no results, the records converted before
  included. The failure is \<^verbatim>\<open>Music search failed: ...\<close> when the exception is a
  \<^verbatim>\<open>ValueError\<close> (a rejected field value), and
  \<^verbatim>\<open>Music search failed due to unexpected error: ...\<close> otherwise (a record that is no dict).
\<close>

theorem MusicSearcher_aborts:
  assumes "strip q \<noteq> []"
    and "youtube_api env q = Inr (Some (pre @ r # post))"
    and "\<forall>x\<in>set pre. \<forall>e'. to_MusicVideo x = Inl e' \<longrightarrow> is_KeyError e'"
    and "to_MusicVideo r = Inl e"
    and "\<not> is_KeyError e"
  shows "MusicSearcher_analyze env \<lparr>MusicSearchRequest.query = q\<rparr> =
           ([Search q],
            Inl (ValueError
                   (if is_ValueError e
                    then ''Music search failed: '' @ str_exn env e
                    else ''Music search failed due to unexpected error: '' @ str_exn env e)))"
  using assms(1,2) strip_nonempty[OF assms(1)]
        convert_results_fails[OF assms(3,4,5), of post "[]"]
  by (auto simp: MusicSearcher_analyze_def handler_except_def)

theorem MusicSearcher_aborts_witness:
  "strip ''find music'' \<noteq> []
   \<and> youtube_api (double\<lparr>youtube_api :=
          \<lambda>q. Inr (Some ([song ''a'', song_without_channel] @ PList [] # [song ''b'']))\<rparr>)
        ''find music''
       = Inr (Some ([song ''a'', song_without_channel] @ PList [] # [song ''b'']))
   \<and> to_MusicVideo (song ''a'') = Inr (video_of (song ''a''))
   \<and> to_MusicVideo song_without_channel = Inl (KeyError ''channel'')
   \<and> is_KeyError (KeyError ''channel'')
   \<and> to_MusicVideo (PList []) = Inl (TypeError (PList []))
   \<and> \<not> is_KeyError (TypeError (PList []))
   \<and> MusicSearcher_analyze (double\<lparr>youtube_api :=
          \<lambda>q. Inr (Some ([song ''a'', song_without_channel] @ PList [] # [song ''b'']))\<rparr>)
        \<lparr>MusicSearchRequest.query = ''find music''\<rparr>
       = ([Search ''find music''],
          Inl (ValueError ''Music search failed due to unexpected error: not subscriptable''))"
proof -
  let ?env = "double\<lparr>youtube_api :=
          \<lambda>q. Inr (Some ([song ''a'', song_without_channel] @ PList [] # [song ''b'']))\<rparr>"
  have l: "youtube_api ?env ''find music''
       = Inr (Some ([song ''a'', song_without_channel] @ PList [] # [song ''b'']))" by simp
  have k: "to_MusicVideo song_without_channel = Inl (KeyError ''channel'')"
    by (simp add: to_MusicVideo_def song_without_channel_def)
  have p: "\<forall>x\<in>set [song ''a'', song_without_channel].
         \<forall>e'. to_MusicVideo x = Inl e' \<longrightarrow> is_KeyError e'"
    using k by (auto simp: song_converts)
  have t: "to_MusicVideo (PList []) = Inl (TypeError (PList []))"
    by (simp add: to_MusicVideo_def)
  have n: "\<not> is_KeyError (TypeError (PList []))" by simp
  from MusicSearcher_aborts[OF strip_find_music l p t n]
  show ?thesis using strip_find_music l k t n by (simp add: double_def song_converts)
qed

section \<open>The legacy endpoint\<close>



lemma hello_no_keyword:
  "\<not> any_keyword ''hello'' [''find music'', ''play music'', ''search song'']"
  "\<not> any_keyword ''hello'' [''generate image'', ''create image'']"
  by (simp_all add: any_keyword_def lower_def lower_char_def startswith_def)















text \<open>
  Claim C2 asks for status 400 when no rule matches. On the payload \<^verbatim>\<open>{"prompt": "hello"}\<close>
  the body of the \<^verbatim>\<open>try\<close> raises \<^verbatim>\<open>HTTPException(status_code=400)\<close> with the
  \<^emph>\<open>valid request type\<close> message, and the \<^verbatim>\<open>except Exception\<close> around it turns that into
  an \<^verbatim>\<open>HTTPException\<close> of status 500.
\<close>

theorem handle_agent_task_unmatched_is_500:
  "handle_agent_task env [(''prompt'', PStr ''hello'')] =
     ([], Inl (HTTPException 500
                 (library_str env (HTTPException 400 invalid_request_msg))))
   \<and> status_code (snd (handle_agent_task env [(''prompt'', PStr ''hello'')])) = 500
   \<and> agent_task_body env [(''prompt'', PStr ''hello'')] =
       ([], Inl (HTTPException 400 invalid_request_msg))"
  using hello_no_keyword
  by (simp add: handle_agent_task_def agent_task_body_def)

end
